theory Spec2Isabelle
  imports Main "HOL-Library.Word"
begin

unbundle bit_operations_syntax

section \<open>Strings\<close>

text \<open>
  A Python \<open>str\<close> is modelled by its UTF-8 byte sequence: \<open>string\<close> is a list of
  8-bit characters. \<open>answer.encode()\<close> is then the list of the bytes themselves, and
  \<open>'.' in s\<close> and \<open>s.rsplit('.', 1)\<close> read the same on bytes as on code points, because
  the byte \<open>0x2E\<close> occurs in UTF-8 only as the character \<open>.\<close> itself. Strings with a
  lone surrogate, which have no UTF-8 form, are outside this type.
\<close>

type_synonym byte = "8 word"

definition encode :: "string \<Rightarrow> byte list" where
  "encode s = map of_char s"

text \<open>
  \<open>str.lower()\<close>, on the ASCII letters. A character outside ASCII either stays outside
  ASCII when lowered or becomes \<open>k\<close> (the Kelvin sign), and no allowed extension has a
  \<open>k\<close>, so membership in \<open>ALLOWED_EXTENSIONS\<close> is the same as with Python's full rule.
\<close>

definition lower_char :: "char \<Rightarrow> char" where
  "lower_char c = (let n = (of_char c :: nat) in if 65 \<le> n \<and> n \<le> 90 then char_of (n + 32) else c)"

definition lower :: "string \<Rightarrow> string" where
  "lower s = map lower_char s"

text \<open>
  \<open>s.rsplit(sep, 1)\<close> for a separator of one character: one split at the last
  occurrence of \<open>sep\<close>, or the string alone when \<open>sep\<close> does not occur.
\<close>

definition rsplit1 :: "char \<Rightarrow> string \<Rightarrow> string list" where
  "rsplit1 sep s =
     (if sep \<in> set s
      then [rev (tl (dropWhile (\<lambda>c. c \<noteq> sep) (rev s))), rev (takeWhile (\<lambda>c. c \<noteq> sep) (rev s))]
      else [s])"

datatype py_error = IndexError

text \<open>\<open>xs[i]\<close> for an index that is not negative: out of range raises.\<close>

definition item :: "'a list \<Rightarrow> nat \<Rightarrow> py_error + 'a" where
  "item xs i = (if i < length xs then Inr (xs ! i) else Inl IndexError)"

section \<open>Validation of the file name\<close>

definition ALLOWED_EXTENSIONS :: "string set" where
  "ALLOWED_EXTENSIONS =
     {''pdf'', ''txt'', ''png'', ''jpg'', ''jpeg'', ''gif'', ''docx'', ''doc'', ''xlsx'', ''xls''}"

text \<open>
  \<open>allowed_file\<close>: the \<open>and\<close> evaluates its right operand only when the left one is
  true; the indexing \<open>[1]\<close> keeps its \<open>IndexError\<close> branch.
\<close>

definition allowed_file :: "string \<Rightarrow> py_error + bool" where
  "allowed_file filename =
     (if CHR ''.'' \<in> set filename
      then (case item (rsplit1 (CHR ''.'') filename) 1 of
              Inl e \<Rightarrow> Inl e
            | Inr ext \<Rightarrow> Inr (lower ext \<in> ALLOWED_EXTENSIONS))
      else Inr False)"

text \<open>
  The validation rule in the words of the specification: the name has a dot, and the
  lowercased suffix after its last dot is in the allow-list.
\<close>

definition allowed_spec :: "string \<Rightarrow> bool" where
  "allowed_spec f =
     (CHR ''.'' \<in> set f \<and>
      (\<exists>pre suf. f = pre @ CHR ''.'' # suf \<and> CHR ''.'' \<notin> set suf \<and> lower suf \<in> ALLOWED_EXTENSIONS))"

section \<open>Hashing of the security answer: SHA-256\<close>

text \<open>
  \<open>hashlib.sha256(b).hexdigest()\<close>, after FIPS 180-4: padding to a multiple of 64
  bytes, sixteen big-endian words per block, the message schedule of 64 words, 64
  rounds, and the eight state words printed as lowercase hexadecimal.
\<close>

type_synonym w32 = "32 word"

definition rotr :: "nat \<Rightarrow> w32 \<Rightarrow> w32" where
  "rotr n x = (drop_bit n x) OR (push_bit (32 - n) x)"

definition Ch :: "w32 \<Rightarrow> w32 \<Rightarrow> w32 \<Rightarrow> w32" where
  "Ch x y z = (x AND y) XOR (NOT x AND z)"

definition Maj :: "w32 \<Rightarrow> w32 \<Rightarrow> w32 \<Rightarrow> w32" where
  "Maj x y z = (x AND y) XOR (x AND z) XOR (y AND z)"

definition bsig0 :: "w32 \<Rightarrow> w32" where
  "bsig0 x = rotr 2 x XOR rotr 13 x XOR rotr 22 x"

definition bsig1 :: "w32 \<Rightarrow> w32" where
  "bsig1 x = rotr 6 x XOR rotr 11 x XOR rotr 25 x"

definition ssig0 :: "w32 \<Rightarrow> w32" where
  "ssig0 x = rotr 7 x XOR rotr 18 x XOR drop_bit 3 x"

definition ssig1 :: "w32 \<Rightarrow> w32" where
  "ssig1 x = rotr 17 x XOR rotr 19 x XOR drop_bit 10 x"

text \<open>
  The round constants, each beside the prime it belongs to: the constant of the prime
  \<open>p\<close> is the first 32 bits of the fractional part of the cube root of \<open>p\<close>.
\<close>

definition K256_table :: "(nat \<times> w32) list" where
  "K256_table =
   [(2, 0x428a2f98), (3, 0x71374491), (5, 0xb5c0fbcf), (7, 0xe9b5dba5),
    (11, 0x3956c25b), (13, 0x59f111f1), (17, 0x923f82a4), (19, 0xab1c5ed5),
    (23, 0xd807aa98), (29, 0x12835b01), (31, 0x243185be), (37, 0x550c7dc3),
    (41, 0x72be5d74), (43, 0x80deb1fe), (47, 0x9bdc06a7), (53, 0xc19bf174),
    (59, 0xe49b69c1), (61, 0xefbe4786), (67, 0x0fc19dc6), (71, 0x240ca1cc),
    (73, 0x2de92c6f), (79, 0x4a7484aa), (83, 0x5cb0a9dc), (89, 0x76f988da),
    (97, 0x983e5152), (101, 0xa831c66d), (103, 0xb00327c8), (107, 0xbf597fc7),
    (109, 0xc6e00bf3), (113, 0xd5a79147), (127, 0x06ca6351), (131, 0x14292967),
    (137, 0x27b70a85), (139, 0x2e1b2138), (149, 0x4d2c6dfc), (151, 0x53380d13),
    (157, 0x650a7354), (163, 0x766a0abb), (167, 0x81c2c92e), (173, 0x92722c85),
    (179, 0xa2bfe8a1), (181, 0xa81a664b), (191, 0xc24b8b70), (193, 0xc76c51a3),
    (197, 0xd192e819), (199, 0xd6990624), (211, 0xf40e3585), (223, 0x106aa070),
    (227, 0x19a4c116), (229, 0x1e376c08), (233, 0x2748774c), (239, 0x34b0bcb5),
    (241, 0x391c0cb3), (251, 0x4ed8aa4a), (257, 0x5b9cca4f), (263, 0x682e6ff3),
    (269, 0x748f82ee), (271, 0x78a5636f), (277, 0x84c87814), (281, 0x8cc70208),
    (283, 0x90befffa), (293, 0xa4506ceb), (307, 0xbef9a3f7), (311, 0xc67178f2)]"

definition K256 :: "w32 list" where
  "K256 = map snd K256_table"

text \<open>
  The integer part of the cube root of a prime below 343, and the test that \<open>k\<close> holds
  the 32 bits that follow it.
\<close>

definition cube_root_floor :: "nat \<Rightarrow> int" where
  "cube_root_floor p =
     (if p < 8 then 1 else if p < 27 then 2 else if p < 64 then 3
      else if p < 125 then 4 else if p < 216 then 5 else 6)"

definition cube_root_fraction :: "nat \<Rightarrow> w32 \<Rightarrow> bool" where
  "cube_root_fraction p k =
     (let x = cube_root_floor p * 2 ^ 32 + uint k
      in x ^ 3 \<le> int p * 2 ^ 96 \<and> int p * 2 ^ 96 < (x + 1) ^ 3)"

type_synonym hstate = "w32 \<times> w32 \<times> w32 \<times> w32 \<times> w32 \<times> w32 \<times> w32 \<times> w32"

definition H0 :: hstate where
  "H0 = (0x6a09e667, 0xbb67ae85, 0x3c6ef372, 0xa54ff53a,
         0x510e527f, 0x9b05688c, 0x1f83d9ab, 0x5be0cd19)"

text \<open>The length field is the bit length as a 64-bit word, most significant byte first.\<close>

definition be64 :: "64 word \<Rightarrow> byte list" where
  "be64 n = map (\<lambda>i. ucast (drop_bit (8 * (7 - i)) n)) [0..<8]"

definition pad :: "byte list \<Rightarrow> byte list" where
  "pad m = m @ [0x80] @ replicate ((119 - length m mod 64) mod 64) 0
             @ be64 (8 * of_nat (length m))"

fun be_words :: "byte list \<Rightarrow> w32 list" where
  "be_words (a # b # c # d # rest) =
     (push_bit 24 (ucast a) OR push_bit 16 (ucast b) OR push_bit 8 (ucast c) OR ucast d)
       # be_words rest"
| "be_words _ = []"

text \<open>
  The schedule grows the sixteen words of a block by \<open>n\<close> more; the indices count back
  from the end of the list, which has at least sixteen entries.
\<close>

fun schedule :: "nat \<Rightarrow> w32 list \<Rightarrow> w32 list" where
  "schedule 0 w = w"
| "schedule (Suc n) w =
     schedule n (w @ [ssig1 (w ! (length w - 2)) + w ! (length w - 7)
                      + ssig0 (w ! (length w - 15)) + w ! (length w - 16)])"

fun round256 :: "hstate \<Rightarrow> w32 \<times> w32 \<Rightarrow> hstate" where
  "round256 (a, b, c, d, e, f, g, h) (k, w) =
     (let t1 = h + bsig1 e + Ch e f g + k + w;
          t2 = bsig0 a + Maj a b c
      in (t1 + t2, a, b, c, d + t1, e, f, g))"

fun add_state :: "hstate \<Rightarrow> hstate \<Rightarrow> hstate" where
  "add_state (a, b, c, d, e, f, g, h) (a', b', c', d', e', f', g', h') =
     (a + a', b + b', c + c', d + d', e + e', f + f', g + g', h + h')"

definition compress :: "hstate \<Rightarrow> w32 list \<Rightarrow> hstate" where
  "compress hs block = add_state hs (foldl round256 hs (zip K256 (schedule 48 block)))"

fun blocks :: "nat \<Rightarrow> w32 list \<Rightarrow> w32 list list" where
  "blocks 0 ws = []"
| "blocks (Suc n) ws = take 16 ws # blocks n (drop 16 ws)"

definition sha256 :: "byte list \<Rightarrow> hstate" where
  "sha256 m = (let ws = be_words (pad m) in foldl compress H0 (blocks (length ws div 16) ws))"

definition hexdigits :: string where
  "hexdigits = ''0123456789abcdef''"

definition hexdigit :: "nat \<Rightarrow> char" where
  "hexdigit n = hexdigits ! n"

definition hex32 :: "w32 \<Rightarrow> string" where
  "hex32 w = map (\<lambda>i. hexdigit (unat (drop_bit (4 * (7 - i)) w AND 15))) [0..<8]"

fun hexdigest :: "hstate \<Rightarrow> string" where
  "hexdigest (a, b, c, d, e, f, g, h) =
     hex32 a @ hex32 b @ hex32 c @ hex32 d @ hex32 e @ hex32 f @ hex32 g @ hex32 h"

text \<open>\<open>hashlib.sha256(answer.encode()).hexdigest()\<close>, as both handlers compute it.\<close>

definition sha256_hexdigest :: "string \<Rightarrow> string" where
  "sha256_hexdigest answer = hexdigest (sha256 (encode answer))"

section \<open>The external store\<close>

text \<open>
  Every call of a collaborator either returns a value or raises; \<open>Raises\<close> carries
  \<open>str(e)\<close>, the only part of an exception the handlers read.
\<close>

datatype 'a outcome = Returns 'a | Raises string

text \<open>A row of the table \<open>files\<close>, with the columns the upload handler inserts.\<close>

record file_row =
  serial_code :: string
  security_question :: string
  hashed_answer :: string
  file_path :: string
  original_filename :: string

text \<open>The calls a handler makes on the Supabase client, in the order it makes them.\<close>

datatype call =
    TableSelect string
  | StorageUpload string
  | GetPublicUrl string
  | TableInsert file_row
  | StorageRemove string

text \<open>
  The state a request runs in: the rows of the table in the order a query returns
  them, the objects of the bucket (path to bytes and content type), the calls made so
  far, and the lines printed.
\<close>

record store =
  files :: "file_row list"
  objects :: "string \<rightharpoonup> string \<times> string"
  calls :: "call list"
  stdout :: "string list"

text \<open>
  How the collaborators answer during one request. None of them is in the repository,
  so their answers are parameters:
  \<^item> \<open>select_fault\<close>: \<open>Some e\<close> when \<open>execute()\<close> of a select raises;
  \<^item> \<open>upload_result\<close>: the response of the storage upload, as its \<open>status_code\<close> and
    what \<open>response.json()\<close> gives when the handler formats it;
  \<^item> \<open>public_url_result\<close>: \<open>file_url_response.data.get('publicUrl')\<close>;
  \<^item> \<open>insert_result\<close>: the pair \<open>data, count\<close> of the insert, \<open>data\<close> by its truth value
    and \<open>count\<close> as the f-string prints it;
  \<^item> \<open>remove_result n\<close>: the \<open>n\<close>-th removal of the request; \<open>Returns True\<close> when the
    object was removed, \<open>Returns False\<close> when the call came back without removing it;
  \<^item> \<open>secure_filename\<close>: werkzeug's sanitizer.
  A call that reports success has taken effect on the store, and one that fails has not.
\<close>

record env =
  select_fault :: "string option"
  upload_result :: "(nat \<times> string outcome) outcome"
  public_url_result :: "string option outcome"
  insert_result :: "(bool \<times> string) outcome"
  remove_result :: "nat \<Rightarrow> bool outcome"
  secure_filename :: "string \<Rightarrow> string outcome"

definition called :: "call \<Rightarrow> store \<Rightarrow> store" where
  "called c st = st\<lparr>calls := calls st @ [c]\<rparr>"

text \<open>
  \<open>supabase.table('files').select(columns).eq('serial_code', s).execute()\<close>: the rows
  with that serial code. The handlers read only the columns they selected.
\<close>

definition table_select :: "string \<Rightarrow> env \<Rightarrow> store \<Rightarrow> file_row list outcome \<times> store" where
  "table_select s ev st =
     (case select_fault ev of
        Some e \<Rightarrow> (Raises e, called (TableSelect s) st)
      | None \<Rightarrow> (Returns (filter (\<lambda>r. serial_code r = s) (files st)), called (TableSelect s) st))"

definition storage_upload ::
  "string \<Rightarrow> string \<Rightarrow> string \<Rightarrow> env \<Rightarrow> store \<Rightarrow> (nat \<times> string outcome) outcome \<times> store" where
  "storage_upload path content ctype ev st =
     (case upload_result ev of
        Raises e \<Rightarrow> (Raises e, called (StorageUpload path) st)
      | Returns (code, js) \<Rightarrow>
          (Returns (code, js),
           if code = 200
           then (called (StorageUpload path) st)\<lparr>objects := (objects st)(path \<mapsto> (content, ctype))\<rparr>
           else called (StorageUpload path) st))"

definition storage_get_public_url :: "string \<Rightarrow> env \<Rightarrow> store \<Rightarrow> string option outcome \<times> store" where
  "storage_get_public_url path ev st = (public_url_result ev, called (GetPublicUrl path) st)"

definition table_insert :: "file_row \<Rightarrow> env \<Rightarrow> store \<Rightarrow> (bool \<times> string) outcome \<times> store" where
  "table_insert row ev st =
     (case insert_result ev of
        Raises e \<Rightarrow> (Raises e, called (TableInsert row) st)
      | Returns (data, count) \<Rightarrow>
          (Returns (data, count),
           if data then (called (TableInsert row) st)\<lparr>files := files st @ [row]\<rparr>
           else called (TableInsert row) st))"

definition storage_remove :: "nat \<Rightarrow> string \<Rightarrow> env \<Rightarrow> store \<Rightarrow> bool outcome \<times> store" where
  "storage_remove n path ev st =
     (case remove_result ev n of
        Raises e \<Rightarrow> (Raises e, called (StorageRemove path) st)
      | Returns removed \<Rightarrow>
          (Returns removed,
           if removed then (called (StorageRemove path) st)\<lparr>objects := (objects st)(path := None)\<rparr>
           else called (StorageRemove path) st))"

section \<open>The handlers\<close>

text \<open>
  What a view function gives Flask: \<open>jsonify(body), status\<close>, or an exception that
  leaves the function.
\<close>

datatype response = Response nat "(string \<times> string) list" | Unhandled string

text \<open>Python's truth value of a form or JSON field: absent and empty are both false.\<close>

fun truthy :: "string option \<Rightarrow> bool" where
  "truthy None = False"
| "truthy (Some s) = (s \<noteq> [])"

record uploaded_file =
  filename :: "string option"
  content :: string
  content_type :: string

text \<open>The dictionary the upload handler inserts.\<close>

definition metadata_row :: "string \<Rightarrow> string \<Rightarrow> string \<Rightarrow> string \<Rightarrow> string \<Rightarrow> file_row" where
  "metadata_row serial question answer_hash file_url original =
     \<lparr>serial_code = serial, security_question = question, hashed_answer = answer_hash,
      file_path = file_url, original_filename = original\<rparr>"

text \<open>
  The \<open>except Exception as e\<close> branch of \<open>upload_file\<close>: one more removal, whose own
  exception is printed and dropped. \<open>n\<close> counts the removals the request made before.
\<close>

definition upload_except :: "nat \<Rightarrow> string \<Rightarrow> string \<Rightarrow> env \<Rightarrow> store \<Rightarrow> response \<times> store" where
  "upload_except n path e ev st =
     (case storage_remove n path ev st of
        (Raises cleanup_e, st') \<Rightarrow>
          (Response 500 [(''error'', ''Failed to upload file or metadata: '' @ e)],
           st'\<lparr>stdout := stdout st' @ [''Cleanup failed for '' @ path @ '': '' @ cleanup_e]\<rparr>)
      | (Returns _, st') \<Rightarrow>
          (Response 500 [(''error'', ''Failed to upload file or metadata: '' @ e)], st'))"

text \<open>The body of the \<open>try\<close> of \<open>upload_file\<close>, each raising call going to the handler.\<close>

definition upload_try ::
  "string \<Rightarrow> string \<Rightarrow> string \<Rightarrow> string \<Rightarrow> string \<Rightarrow> uploaded_file \<Rightarrow> env \<Rightarrow> store
     \<Rightarrow> response \<times> store" where
  "upload_try serial question answer_hash original path file ev st =
     (case storage_upload path (content file) (content_type file) ev st of
        (Raises e, st1) \<Rightarrow> upload_except 0 path e ev st1
      | (Returns (code, js), st1) \<Rightarrow>
          if code \<noteq> 200
          then (case js of
                  Raises e \<Rightarrow> upload_except 0 path e ev st1
                | Returns j \<Rightarrow>
                    (Response 500 [(''error'', ''Failed to upload file to storage: '' @ j)], st1))
          else
            (case storage_get_public_url path ev st1 of
               (Raises e, st2) \<Rightarrow> upload_except 0 path e ev st2
             | (Returns file_url, st2) \<Rightarrow>
                 (case file_url of
                    None \<Rightarrow>
                      (Response 500 [(''error'', ''Could not get public URL for uploaded file.'')], st2)
                  | Some u \<Rightarrow>
                      if u = []
                      then (Response 500
                              [(''error'', ''Could not get public URL for uploaded file.'')], st2)
                      else
                        (case table_insert (metadata_row serial question answer_hash u original)
                                ev st2 of
                           (Raises e, st3) \<Rightarrow> upload_except 0 path e ev st3
                         | (Returns (data, count), st3) \<Rightarrow>
                             if \<not> data
                             then (case storage_remove 0 path ev st3 of
                                     (Raises e, st4) \<Rightarrow> upload_except 1 path e ev st4
                                   | (Returns _, st4) \<Rightarrow>
                                       (Response 500
                                          [(''error'', ''Failed to store file metadata: '' @ count)],
                                        st4))
                             else (Response 201
                                     [(''message'', ''File uploaded successfully!''),
                                      (''fileUrl'', u)], st3)))))"

text \<open>
  \<open>upload_file\<close> after the presence checks, with the four fields as strings: the
  extension check, the uniqueness query, the hash, the sanitized name and the storage
  path, all before the \<open>try\<close>.
\<close>

definition upload_checked ::
  "string \<Rightarrow> string \<Rightarrow> string \<Rightarrow> string \<Rightarrow> uploaded_file \<Rightarrow> env \<Rightarrow> store \<Rightarrow> response \<times> store" where
  "upload_checked serial question answer name file ev st =
     (case allowed_file name of
        Inl e \<Rightarrow> (Unhandled ''IndexError'', st)
      | Inr ok \<Rightarrow>
          if \<not> ok then (Response 400 [(''error'', ''File type not allowed'')], st)
          else
            (case table_select serial ev st of
               (Raises e, st1) \<Rightarrow>
                 (Response 500
                    [(''error'', ''Database error during serial code check: '' @ e)], st1)
             | (Returns data, st1) \<Rightarrow>
                 if data \<noteq> []
                 then (Response 409
                         [(''error'', ''Serial code already exists. Please choose a different one.'')],
                       st1)
                 else
                   (let answer_hash = sha256_hexdigest answer in
                    case secure_filename ev name of
                      Raises e \<Rightarrow> (Unhandled e, st1)
                    | Returns original \<Rightarrow>
                        upload_try serial question answer_hash original
                          (serial @ ''/'' @ original) file ev st1)))"

text \<open>
  \<open>upload_file\<close>: the file part and the three form fields, each absent or a string.
  The request is served alone, with no other request between its calls, and
  \<open>file.read()\<close> gives the content; \<open>upload_file_concurrent\<close> below lifts both.
\<close>

definition upload_file ::
  "uploaded_file option \<Rightarrow> string option \<Rightarrow> string option \<Rightarrow> string option \<Rightarrow> env \<Rightarrow> store
     \<Rightarrow> response \<times> store" where
  "upload_file file_part serialCode securityQuestion securityAnswer ev st =
     (case file_part of
        None \<Rightarrow> (Response 400 [(''error'', ''No file part'')], st)
      | Some file \<Rightarrow>
          if \<not> (truthy serialCode \<and> truthy securityQuestion \<and> truthy securityAnswer
                 \<and> truthy (filename file))
          then (Response 400 [(''error'', ''Missing data'')], st)
          else
            (case (serialCode, securityQuestion, securityAnswer, filename file) of
               (Some serial, Some question, Some answer, Some name) \<Rightarrow>
                 upload_checked serial question answer name file ev st
             | _ \<Rightarrow> (Response 400 [(''error'', ''Missing data'')], st)))"

definition get_security_question :: "string option \<Rightarrow> env \<Rightarrow> store \<Rightarrow> response \<times> store" where
  "get_security_question serialCode ev st =
     (case serialCode of
        None \<Rightarrow> (Response 400 [(''error'', ''Missing serial code'')], st)
      | Some serial \<Rightarrow>
          if serial = [] then (Response 400 [(''error'', ''Missing serial code'')], st)
          else
            (case table_select serial ev st of
               (Raises e, st1) \<Rightarrow> (Response 500 [(''error'', ''Database error: '' @ e)], st1)
             | (Returns data, st1) \<Rightarrow>
                 (case data of
                    row # _ \<Rightarrow> (Response 200 [(''securityQuestion'', security_question row)], st1)
                  | [] \<Rightarrow> (Response 404 [(''error'', ''Serial code not found'')], st1))))"

definition retrieve_file_info ::
  "string option \<Rightarrow> string option \<Rightarrow> env \<Rightarrow> store \<Rightarrow> response \<times> store" where
  "retrieve_file_info serialCode securityAnswer ev st =
     (if \<not> truthy serialCode \<or> \<not> truthy securityAnswer
      then (Response 400 [(''error'', ''Missing data'')], st)
      else
        (case (serialCode, securityAnswer) of
           (Some serial, Some answer) \<Rightarrow>
             (case table_select serial ev st of
                (Raises e, st1) \<Rightarrow> (Response 500 [(''error'', ''Database error: '' @ e)], st1)
              | (Returns data, st1) \<Rightarrow>
                  (case data of
                     [] \<Rightarrow> (Response 404 [(''error'', ''Invalid serial code'')], st1)
                   | file_data # _ \<Rightarrow>
                       (let stored_answer_hash = hashed_answer file_data;
                            stored_file_path = file_path file_data;
                            original = original_filename file_data;
                            provided_answer_hash = sha256_hexdigest answer
                        in if stored_answer_hash \<noteq> provided_answer_hash
                           then (Response 403 [(''error'', ''Incorrect security answer'')], st1)
                           else (Response 200
                                   [(''message'', ''Verification successful''),
                                    (''downloadUrl'', stored_file_path),
                                    (''originalFilename'', original)], st1))))
         | _ \<Rightarrow> (Response 400 [(''error'', ''Missing data'')], st)))"

section \<open>Example requests, collaborators and stores\<close>

text \<open>
  The concrete inputs the theorems below are instantiated at: an upload of a PDF, a
  collaborator that answers every call with success, and stores holding one row or two
  rows for the serial code \<open>SN123\<close>.
\<close>

definition report_pdf :: uploaded_file where
  "report_pdf = \<lparr>filename = Some ''report.pdf'', content = ''%PDF-1.4'',
                  content_type = ''application/pdf''\<rparr>"

definition healthy :: env where
  "healthy = \<lparr>select_fault = None,
              upload_result = Returns (200, Returns ''{}''),
              public_url_result = Returns (Some ''https://store.example/uploads/SN123/report.pdf''),
              insert_result = Returns (True, ''None''),
              remove_result = (\<lambda>n. Returns True),
              secure_filename = Returns\<rparr>"

definition empty_store :: store where
  "empty_store = \<lparr>files = [], objects = Map.empty, calls = [], stdout = []\<rparr>"

definition paris_row :: file_row where
  "paris_row = metadata_row ''SN123'' ''What city?'' (sha256_hexdigest ''Paris'')
                 ''https://store.example/uploads/SN123/report.pdf'' ''report.pdf''"

definition paris_store :: store where
  "paris_store = empty_store\<lparr>files := [paris_row]\<rparr>"

definition rome_row :: file_row where
  "rome_row = metadata_row ''SN123'' ''Which town?'' (sha256_hexdigest ''Rome'')
                ''https://store.example/uploads/SN123/notes.txt'' ''notes.txt''"

definition raced_store :: store where
  "raced_store = empty_store\<lparr>files := [paris_row, rome_row]\<rparr>"

definition url_missing :: env where
  "url_missing = healthy\<lparr>public_url_result := Returns None\<rparr>"

definition fails_once :: "nat \<Rightarrow> bool outcome" where
  "fails_once n = (if n = 0 then Raises ''storage timeout'' else Returns True)"

definition insert_empty_cleanup_raises :: env where
  "insert_empty_cleanup_raises =
     healthy\<lparr>insert_result := Returns (False, ''None''), remove_result := fails_once\<rparr>"

definition failing_sanitizer :: "string \<Rightarrow> string outcome" where
  "failing_sanitizer name = Raises ''sanitizer failed''"

definition sanitizer_raises :: env where
  "sanitizer_raises = healthy\<lparr>secure_filename := failing_sanitizer\<rparr>"

text \<open>The routes of the application, and a sequence of requests served one after another.\<close>

datatype request =
    Upload "uploaded_file option" "string option" "string option" "string option"
  | GetQuestion "string option"
  | Retrieve "string option" "string option"

fun serve :: "request \<Rightarrow> env \<Rightarrow> store \<Rightarrow> response \<times> store" where
  "serve (Upload file_part serialCode securityQuestion securityAnswer) ev st =
     upload_file file_part serialCode securityQuestion securityAnswer ev st"
| "serve (GetQuestion serialCode) ev st = get_security_question serialCode ev st"
| "serve (Retrieve serialCode securityAnswer) ev st =
     retrieve_file_info serialCode securityAnswer ev st"

fun run :: "(request \<times> env) list \<Rightarrow> store \<Rightarrow> store" where
  "run [] st = st"
| "run ((rq, ev) # later) st = run later (snd (serve rq ev st))"

definition later_requests :: "(request \<times> env) list" where
  "later_requests =
     [(GetQuestion (Some ''SN123''), healthy),
      (Upload (Some report_pdf) (Some ''SN123'') (Some ''Which town?'') (Some ''Rome''), healthy),
      (Retrieve (Some ''SN123'') (Some ''Rome''), healthy)]"

text \<open>
  The handlers above serve a request alone: nothing else touches the store between its
  calls. Each call is a round trip of its own, though, and the requests of other clients
  are served in between. \<open>upload_file_concurrent\<close> is \<open>upload_file\<close> with that made
  explicit: \<open>others\<close> is what the other requests do to the store between the uniqueness
  query and the rest of the handler, and \<open>read\<close> is what \<open>file.read()\<close> gives, the bytes
  or an exception, which is raised inside the \<open>try\<close>. For the rows of the table,
  whatever others do between the query and the insert amounts to \<open>others\<close>.
\<close>

definition upload_file_concurrent ::
  "uploaded_file option \<Rightarrow> string option \<Rightarrow> string option \<Rightarrow> string option
     \<Rightarrow> string outcome \<Rightarrow> (store \<Rightarrow> store) \<Rightarrow> env \<Rightarrow> store \<Rightarrow> response \<times> store" where
  "upload_file_concurrent file_part serialCode securityQuestion securityAnswer read others ev st =
     (case file_part of
        None \<Rightarrow> (Response 400 [(''error'', ''No file part'')], st)
      | Some file \<Rightarrow>
          if \<not> (truthy serialCode \<and> truthy securityQuestion \<and> truthy securityAnswer
                 \<and> truthy (filename file))
          then (Response 400 [(''error'', ''Missing data'')], st)
          else
            (case (serialCode, securityQuestion, securityAnswer, filename file) of
               (Some serial, Some question, Some answer, Some name) \<Rightarrow>
                 (case allowed_file name of
                    Inl e \<Rightarrow> (Unhandled ''IndexError'', st)
                  | Inr ok \<Rightarrow>
                      if \<not> ok then (Response 400 [(''error'', ''File type not allowed'')], st)
                      else
                        (case table_select serial ev st of
                           (Raises e, st1) \<Rightarrow>
                             (Response 500
                                [(''error'', ''Database error during serial code check: '' @ e)],
                              st1)
                         | (Returns data, st1) \<Rightarrow>
                             if data \<noteq> []
                             then (Response 409
                                     [(''error'',
                                       ''Serial code already exists. Please choose a different one.'')],
                                   st1)
                             else
                               (let st2 = others st1;
                                    answer_hash = sha256_hexdigest answer
                                in case secure_filename ev name of
                                     Raises e \<Rightarrow> (Unhandled e, st2)
                                   | Returns original \<Rightarrow>
                                       (case read of
                                          Raises e \<Rightarrow>
                                            upload_except 0 (serial @ ''/'' @ original) e ev st2
                                        | Returns file_content \<Rightarrow>
                                            upload_try serial question answer_hash original
                                              (serial @ ''/'' @ original)
                                              (file\<lparr>content := file_content\<rparr>) ev st2))))
             | _ \<Rightarrow> (Response 400 [(''error'', ''Missing data'')], st)))"

text \<open>
  Where the body of the \<open>try\<close> raises, if it does: the message of the exception and the
  calls made inside the \<open>try\<close> before it. The exception comes from \<open>file.read()\<close>, from
  the upload, from \<open>response.json()\<close> in the message of a failed upload, from the
  public-URL fetch, from the insert, or from the removal that follows an insert without
  data.
\<close>

definition raised_in_try ::
  "string \<Rightarrow> string \<Rightarrow> string \<Rightarrow> string \<Rightarrow> string \<Rightarrow> string outcome \<Rightarrow> env
     \<Rightarrow> (string \<times> call list) option" where
  "raised_in_try serial question answer_hash original path read ev =
     (case read of
        Raises e \<Rightarrow> Some (e, [])
      | Returns file_content \<Rightarrow>
          (case upload_result ev of
             Raises e \<Rightarrow> Some (e, [StorageUpload path])
           | Returns (code, js) \<Rightarrow>
               if code \<noteq> 200
               then (case js of
                       Raises e \<Rightarrow> Some (e, [StorageUpload path])
                     | Returns j \<Rightarrow> None)
               else
                 (case public_url_result ev of
                    Raises e \<Rightarrow> Some (e, [StorageUpload path, GetPublicUrl path])
                  | Returns None \<Rightarrow> None
                  | Returns (Some u) \<Rightarrow>
                      if u = [] then None
                      else
                        (case insert_result ev of
                           Raises e \<Rightarrow>
                             Some (e, [StorageUpload path, GetPublicUrl path,
                                       TableInsert (metadata_row serial question answer_hash
                                                      u original)])
                         | Returns (data, count) \<Rightarrow>
                             if data then None
                             else
                               (case remove_result ev 0 of
                                  Raises e \<Rightarrow>
                                    Some (e, [StorageUpload path, GetPublicUrl path,
                                              TableInsert (metadata_row serial question
                                                             answer_hash u original),
                                              StorageRemove path])
                                | Returns removed \<Rightarrow> None)))))"

definition other_upload :: "store \<Rightarrow> store" where
  "other_upload st =
     snd (upload_file (Some report_pdf) (Some ''SN123'') (Some ''What city?'') (Some ''Paris'')
            healthy st)"

definition other_lookup :: "store \<Rightarrow> store" where
  "other_lookup st = snd (get_security_question (Some ''SN123'') healthy st)"

definition nothing_removable :: env where
  "nothing_removable =
     healthy\<lparr>insert_result := Returns (False, ''None''),
             remove_result := (\<lambda>n. Raises ''storage timeout'')\<rparr>"

section \<open>Properties of the validation and of the digest\<close>

lemmas store_defs = table_select_def storage_upload_def storage_get_public_url_def
  table_insert_def storage_remove_def called_def

lemma rsplit1_last:
  assumes "sep \<notin> set suf"
  shows "rsplit1 sep (pre @ sep # suf) = [pre, suf]"
proof -
  have all: "\<forall>x\<in>set (rev suf). x \<noteq> sep"
    using assms by auto
  have tw: "takeWhile (\<lambda>c. c \<noteq> sep) (rev (pre @ sep # suf)) = rev suf"
    using all by (simp add: takeWhile_tail)
  have dw: "dropWhile (\<lambda>c. c \<noteq> sep) (rev (pre @ sep # suf)) = sep # rev pre"
    using all by (simp add: dropWhile_append3)
  have mem: "sep \<in> set (pre @ sep # suf)" by simp
  show ?thesis
    unfolding rsplit1_def tw dw using mem by simp
qed

lemma split_at_last:
  assumes "sep \<in> set s"
  shows "\<exists>pre suf. s = pre @ sep # suf \<and> sep \<notin> set suf"
  using assms by (rule split_list_last)

lemma allowed_file_dot:
  assumes "CHR ''.'' \<notin> set suf"
  shows "allowed_file (pre @ CHR ''.'' # suf) = Inr (lower suf \<in> ALLOWED_EXTENSIONS)"
proof -
  have "rsplit1 (CHR ''.'') (pre @ CHR ''.'' # suf) = [pre, suf]"
    using assms by (rule rsplit1_last)
  then show ?thesis
    by (simp add: allowed_file_def item_def)
qed

lemma allowed_spec_dot:
  assumes "CHR ''.'' \<notin> set suf"
  shows "allowed_spec (pre @ CHR ''.'' # suf) = (lower suf \<in> ALLOWED_EXTENSIONS)"
proof
  assume "allowed_spec (pre @ CHR ''.'' # suf)"
  then have "\<exists>p s. pre @ CHR ''.'' # suf = p @ CHR ''.'' # s \<and> CHR ''.'' \<notin> set s
               \<and> lower s \<in> ALLOWED_EXTENSIONS"
    unfolding allowed_spec_def by (rule conjunct2)
  then obtain pre' suf' where eq: "pre @ CHR ''.'' # suf = pre' @ CHR ''.'' # suf'"
    and suf': "CHR ''.'' \<notin> set suf'" and ok: "lower suf' \<in> ALLOWED_EXTENSIONS"
    by (elim exE conjE) (rule that)
  have "rsplit1 (CHR ''.'') (pre' @ CHR ''.'' # suf') = [pre', suf']"
    using suf' by (rule rsplit1_last)
  moreover have "rsplit1 (CHR ''.'') (pre @ CHR ''.'' # suf) = [pre, suf]"
    using assms by (rule rsplit1_last)
  ultimately have "[pre', suf'] = [pre, suf]" by (simp only: eq)
  then have "suf' = suf" by simp
  with ok show "lower suf \<in> ALLOWED_EXTENSIONS" by simp
next
  assume ok: "lower suf \<in> ALLOWED_EXTENSIONS"
  have "\<exists>p s. pre @ CHR ''.'' # suf = p @ CHR ''.'' # s \<and> CHR ''.'' \<notin> set s
          \<and> lower s \<in> ALLOWED_EXTENSIONS"
    using assms ok by (intro exI [of _ pre] exI [of _ suf]) simp
  then show "allowed_spec (pre @ CHR ''.'' # suf)"
    unfolding allowed_spec_def by simp
qed

lemma allowed_file_eq: "allowed_file f = Inr (allowed_spec f)"
proof (cases "CHR ''.'' \<in> set f")
  case False
  then have "\<not> allowed_spec f" by (simp only: allowed_spec_def simp_thms not_False_eq_True)
  with False show ?thesis by (simp add: allowed_file_def)
next
  case True
  from split_at_last [OF True]
  obtain pre suf where f: "f = pre @ CHR ''.'' # suf" and suf: "CHR ''.'' \<notin> set suf"
    by (elim exE conjE) (rule that)
  show ?thesis
    unfolding f by (simp only: allowed_file_dot [OF suf] allowed_spec_dot [OF suf])
qed

lemma empty_not_allowed: "[] \<notin> ALLOWED_EXTENSIONS"
  by (simp add: ALLOWED_EXTENSIONS_def)

text \<open>
  C8. For every file name, \<open>allowed_file\<close> returns (it never raises) and accepts exactly
  when the name contains a dot and the lowercased suffix after its last dot is in the
  allow-list; a name without a dot and a name ending in a dot are rejected.
\<close>

theorem allowed_file_iff_spec:
  "allowed_file f = Inr (allowed_spec f)
   \<and> (CHR ''.'' \<notin> set f \<longrightarrow> allowed_file f = Inr False)
   \<and> allowed_file (f @ ''.'') = Inr False"
proof (intro conjI impI)
  show "allowed_file f = Inr (allowed_spec f)"
    by (rule allowed_file_eq)
  show "allowed_file f = Inr False" if "CHR ''.'' \<notin> set f"
    using that by (simp add: allowed_file_def)
  show "allowed_file (f @ ''.'') = Inr False"
    using rsplit1_last [of "CHR ''.''" "[]" f]
    by (simp add: allowed_file_def item_def lower_def empty_not_allowed)
qed

theorem allowed_file_iff_spec_witness:
  "allowed_spec ''report.PDF'' \<and> CHR ''.'' \<notin> set ''README''
   \<and> allowed_file ''README'' = Inr False \<and> allowed_file ''archive.'' = Inr False"
proof -
  have a: "allowed_file ''report.PDF'' = Inr True"
    by (simp add: allowed_file_def item_def rsplit1_def lower_def lower_char_def
        ALLOWED_EXTENSIONS_def char_of_def bit_Suc_0_iff)
  have b: "CHR ''.'' \<notin> set ''README''" by simp
  have "Inr (allowed_spec ''report.PDF'') = (Inr True :: py_error + bool)"
    using allowed_file_iff_spec [of "''report.PDF''"] a by metis
  then have c: "allowed_spec ''report.PDF''" by blast
  have d: "allowed_file ''README'' = Inr False"
    using allowed_file_iff_spec [of "''README''"] b by blast
  have e: "allowed_file (''archive'' @ ''.'') = Inr False"
    using allowed_file_iff_spec [of "''archive''"] by blast
  show ?thesis using b c d e by simp
qed

lemma allowed_report_pdf: "allowed_file ''report.pdf'' = Inr True"
  by (simp add: allowed_file_def item_def rsplit1_def lower_def lower_char_def ALLOWED_EXTENSIONS_def char_of_def bit_Suc_0_iff)

lemma K256_length: "length K256 = 64"
  by (simp add: K256_def K256_table_def)

lemma K256_cube_roots: "list_all (\<lambda>(p, k). cube_root_fraction p k) K256_table"
  by (simp add: K256_table_def cube_root_fraction_def cube_root_floor_def Let_def)

lemma length_hex32: "length (hex32 w) = 8"
  by (simp add: hex32_def)

lemma hexdigit_in: "n < 16 \<Longrightarrow> hexdigit n \<in> set hexdigits"
  by (simp add: hexdigit_def hexdigits_def nth_mem del: set_simps)

lemma nibble_bound: "unat ((x :: w32) AND 15) < 16"
proof -
  have "unat (x AND 15) \<le> unat (15 :: w32)"
    by (rule word_and_le1 [THEN word_le_nat_alt [THEN iffD1]])
  then show ?thesis by simp
qed

lemma set_hex32: "set (hex32 w) \<subseteq> set hexdigits"
  by (auto simp: hex32_def intro!: hexdigit_in nibble_bound)

lemma length_hexdigest: "length (hexdigest hs) = 64"
  by (cases hs rule: hexdigest.cases) (simp add: length_hex32)

lemma set_hexdigest: "set (hexdigest hs) \<subseteq> set hexdigits"
  using set_hex32 by (cases hs rule: hexdigest.cases) (simp del: set_simps)

section \<open>Properties of the handlers\<close>

lemmas handler_defs = upload_file_def upload_checked_def upload_try_def upload_except_def
  metadata_row_def

lemma allowed_nonempty: "allowed_file name = Inr True \<Longrightarrow> name \<noteq> []"
  by (auto simp: allowed_file_def)

lemma filter_nonempty: "\<exists>r\<in>set rows. P r \<Longrightarrow> filter P rows \<noteq> []"
  by (simp add: filter_empty_conv)

text \<open>
  C2. An upload that passed validation, whose uniqueness query answered and found a row
  with the serial code, gets 409 and changes nothing: the only call made is the query,
  so no object is uploaded or removed and no row is inserted.
\<close>

theorem upload_duplicate_serial_code:
  assumes "filename file = Some name" and "allowed_file name = Inr True"
    and "serial \<noteq> []" and "question \<noteq> []" and "answer \<noteq> []"
    and "select_fault ev = None"
    and "\<exists>r\<in>set (files st). serial_code r = serial"
  shows "upload_file (Some file) (Some serial) (Some question) (Some answer) ev st =
           (Response 409
              [(''error'', ''Serial code already exists. Please choose a different one.'')],
            st\<lparr>calls := calls st @ [TableSelect serial]\<rparr>)"
proof -
  have "name \<noteq> []" using assms(2) by (rule allowed_nonempty)
  moreover have "filter (\<lambda>r. serial_code r = serial) (files st) \<noteq> []"
    using assms(7) by (rule filter_nonempty)
  ultimately show ?thesis
    using assms(1-6) by (simp add: handler_defs store_defs)
qed

theorem upload_duplicate_serial_code_witness:
  "filename report_pdf = Some ''report.pdf'' \<and> allowed_file ''report.pdf'' = Inr True
   \<and> select_fault healthy = None \<and> (\<exists>r\<in>set (files paris_store). serial_code r = ''SN123'')
   \<and> upload_file (Some report_pdf) (Some ''SN123'') (Some ''Which town?'') (Some ''Rome'')
         healthy paris_store =
       (Response 409
          [(''error'', ''Serial code already exists. Please choose a different one.'')],
        paris_store\<lparr>calls := calls paris_store @ [TableSelect ''SN123'']\<rparr>)"
proof -
  have a: "filename report_pdf = Some ''report.pdf''" by (simp add: report_pdf_def)
  have b: "select_fault healthy = None" by (simp add: healthy_def)
  have c: "\<exists>r\<in>set (files paris_store). serial_code r = ''SN123''"
    by (simp add: paris_store_def paris_row_def metadata_row_def empty_store_def)
  have s: "''SN123'' \<noteq> []" and q: "''Which town?'' \<noteq> []" and an: "''Rome'' \<noteq> []"
    by simp_all
  show ?thesis
    using a b c allowed_report_pdf
      upload_duplicate_serial_code [OF a allowed_report_pdf s q an b c]
    by simp
qed


text \<open>
  C7. With both fields present and the query answering, a serial code that no row has
  gets 404, and this is told apart from the wrong-answer case, which gets 403: the two
  statuses and the two messages differ.
\<close>

theorem retrieve_unknown_serial_code:
  assumes "serial \<noteq> []" and "answer \<noteq> []" and "select_fault ev = None"
    and "\<forall>r\<in>set (files st). serial_code r \<noteq> serial"
    and "serial' \<noteq> []" and "answer' \<noteq> []" and "select_fault ev' = None"
    and "filter (\<lambda>r. serial_code r = serial') (files st') = row # rest"
    and "sha256_hexdigest answer' \<noteq> hashed_answer row"
  shows "fst (retrieve_file_info (Some serial) (Some answer) ev st) =
           Response 404 [(''error'', ''Invalid serial code'')]
         \<and> fst (retrieve_file_info (Some serial') (Some answer') ev' st') =
           Response 403 [(''error'', ''Incorrect security answer'')]
         \<and> (404 :: nat) \<noteq> 403 \<and> ''Invalid serial code'' \<noteq> ''Incorrect security answer''
         \<and> fst (retrieve_file_info (Some serial) (Some answer) ev st)
             \<noteq> fst (retrieve_file_info (Some serial') (Some answer') ev' st')"
proof -
  have none: "filter (\<lambda>r. serial_code r = serial) (files st) = []"
    using assms(4) by (simp add: filter_empty_conv)
  have nf: "fst (retrieve_file_info (Some serial) (Some answer) ev st) =
           Response 404 [(''error'', ''Invalid serial code'')]"
    using assms(1-3) none by (simp add: retrieve_file_info_def store_defs)
  have wa: "fst (retrieve_file_info (Some serial') (Some answer') ev' st') =
           Response 403 [(''error'', ''Incorrect security answer'')]"
    using assms(5-9) by (simp add: retrieve_file_info_def store_defs)
  show ?thesis unfolding nf wa by simp
qed

text \<open>
  C10. When the query returns more than one row for a serial code, both lookups act on
  the first row: the question returned, the digest compared, and the URL and file name
  returned are those of the first row, whatever the other rows hold.
\<close>

theorem lookups_use_first_row:
  assumes "serial \<noteq> []" and "select_fault ev = None"
    and "filter (\<lambda>r. serial_code r = serial) (files st) = row # second # rest"
  shows "fst (get_security_question (Some serial) ev st) =
           Response 200 [(''securityQuestion'', security_question row)]
         \<and> (answer \<noteq> [] \<longrightarrow>
              fst (retrieve_file_info (Some serial) (Some answer) ev st) =
                (if hashed_answer row \<noteq> sha256_hexdigest answer
                 then Response 403 [(''error'', ''Incorrect security answer'')]
                 else Response 200 [(''message'', ''Verification successful''),
                                    (''downloadUrl'', file_path row),
                                    (''originalFilename'', original_filename row)]))"
  using assms by (simp add: get_security_question_def retrieve_file_info_def store_defs)

theorem lookups_use_first_row_witness:
  "select_fault healthy = None
   \<and> filter (\<lambda>r. serial_code r = ''SN123'') (files raced_store) = paris_row # rome_row # []
   \<and> fst (get_security_question (Some ''SN123'') healthy raced_store) =
         Response 200 [(''securityQuestion'', ''What city?'')]
   \<and> fst (retrieve_file_info (Some ''SN123'') (Some ''Paris'') healthy raced_store) =
         Response 200 [(''message'', ''Verification successful''),
                       (''downloadUrl'', ''https://store.example/uploads/SN123/report.pdf''),
                       (''originalFilename'', ''report.pdf'')]"
proof -
  have s: "''SN123'' \<noteq> []" and an: "''Paris'' \<noteq> []" by simp_all
  have b: "select_fault healthy = None" by (simp add: healthy_def)
  have c: "filter (\<lambda>r. serial_code r = ''SN123'') (files raced_store)
             = paris_row # rome_row # []"
    by (simp add: raced_store_def paris_row_def rome_row_def metadata_row_def empty_store_def)
  have e: "hashed_answer paris_row = sha256_hexdigest ''Paris''"
    and f: "security_question paris_row = ''What city?''"
    and g: "file_path paris_row = ''https://store.example/uploads/SN123/report.pdf''"
    and h: "original_filename paris_row = ''report.pdf''"
    by (simp_all add: paris_row_def metadata_row_def)
  show ?thesis
    using b c lookups_use_first_row [OF s b c, of "''Paris''"] an
    by (simp add: e f g h)
qed

text \<open>
  C5. When the upload succeeded and the public URL is absent (\<open>None\<close> or empty), the
  handler answers 500 with the fixed message and makes no removal call: the object stays
  in the bucket and no row is written. With a URL present and the insert failing, the
  same request does attempt the removal.
\<close>

theorem upload_missing_public_url_no_cleanup:
  assumes "filename file = Some name" and "allowed_file name = Inr True"
    and "serial \<noteq> []" and "question \<noteq> []" and "answer \<noteq> []"
    and "select_fault ev = None"
    and "\<forall>r\<in>set (files st). serial_code r \<noteq> serial"
    and "secure_filename ev name = Returns original"
    and "upload_result ev = Returns (200, js)"
    and "public_url_result ev = Returns None \<or> public_url_result ev = Returns (Some [])"
  shows "upload_file (Some file) (Some serial) (Some question) (Some answer) ev st =
           (Response 500 [(''error'', ''Could not get public URL for uploaded file.'')],
            st\<lparr>objects := (objects st)(serial @ ''/'' @ original \<mapsto> (content file, content_type file)),
               calls := calls st @ [TableSelect serial, StorageUpload (serial @ ''/'' @ original),
                                    GetPublicUrl (serial @ ''/'' @ original)]\<rparr>)
         \<and> (u \<noteq> [] \<and> (ins = Returns (False, count) \<or> ins = Raises e) \<longrightarrow>
              StorageRemove (serial @ ''/'' @ original)
                \<in> set (calls (snd (upload_file (Some file) (Some serial) (Some question) (Some answer)
                      (ev\<lparr>public_url_result := Returns (Some u), insert_result := ins\<rparr>) st))))"
proof -
  have name: "name \<noteq> []" using assms(2) by (rule allowed_nonempty)
  have none: "filter (\<lambda>r. serial_code r = serial) (files st) = []"
    using assms(7) by (simp add: filter_empty_conv)
  have a: "upload_file (Some file) (Some serial) (Some question) (Some answer) ev st =
           (Response 500 [(''error'', ''Could not get public URL for uploaded file.'')],
            st\<lparr>objects := (objects st)(serial @ ''/'' @ original \<mapsto> (content file, content_type file)),
               calls := calls st @ [TableSelect serial, StorageUpload (serial @ ''/'' @ original),
                                    GetPublicUrl (serial @ ''/'' @ original)]\<rparr>)"
    using assms(1-6,8-10) name none
    by (auto simp: handler_defs store_defs)
  have b: "StorageRemove (serial @ ''/'' @ original)
                \<in> set (calls (snd (upload_file (Some file) (Some serial) (Some question) (Some answer)
                      (ev\<lparr>public_url_result := Returns (Some u), insert_result := ins\<rparr>) st)))"
    if "u \<noteq> []" and "ins = Returns (False, count) \<or> ins = Raises e"
    using assms(1-6,8-9) name none that
    by (auto simp: handler_defs store_defs Let_def split: outcome.splits prod.splits)
  from a b show ?thesis by blast
qed

theorem upload_missing_public_url_no_cleanup_witness:
  "filename report_pdf = Some ''report.pdf'' \<and> allowed_file ''report.pdf'' = Inr True
   \<and> select_fault url_missing = None
   \<and> files empty_store = []
   \<and> secure_filename url_missing ''report.pdf'' = Returns ''report.pdf''
   \<and> upload_result url_missing = Returns (200, Returns ''{}'')
   \<and> public_url_result url_missing = Returns None
   \<and> fst (upload_file (Some report_pdf) (Some ''SN123'') (Some ''What city?'') (Some ''Paris'')
         url_missing empty_store) =
       Response 500 [(''error'', ''Could not get public URL for uploaded file.'')]
   \<and> calls (snd (upload_file (Some report_pdf) (Some ''SN123'') (Some ''What city?'')
         (Some ''Paris'') url_missing empty_store)) =
       [TableSelect ''SN123'', StorageUpload ''SN123/report.pdf'', GetPublicUrl ''SN123/report.pdf'']
   \<and> objects (snd (upload_file (Some report_pdf) (Some ''SN123'') (Some ''What city?'')
         (Some ''Paris'') url_missing empty_store)) ''SN123/report.pdf'' =
       Some (''%PDF-1.4'', ''application/pdf'')
   \<and> files (snd (upload_file (Some report_pdf) (Some ''SN123'') (Some ''What city?'')
         (Some ''Paris'') url_missing empty_store)) = []"
proof -
  have a: "filename report_pdf = Some ''report.pdf''" by (simp add: report_pdf_def)
  have s: "''SN123'' \<noteq> []" and q: "''What city?'' \<noteq> []" and an: "''Paris'' \<noteq> []"
    by simp_all
  have b: "select_fault url_missing = None" by (simp add: url_missing_def healthy_def)
  have c: "\<forall>r\<in>set (files empty_store). serial_code r \<noteq> ''SN123''"
    by (simp add: empty_store_def)
  have d: "secure_filename url_missing ''report.pdf'' = Returns ''report.pdf''"
    by (simp add: url_missing_def healthy_def)
  have e: "upload_result url_missing = Returns (200, Returns ''{}'')"
    by (simp add: url_missing_def healthy_def)
  have f: "public_url_result url_missing = Returns None"
    by (simp add: url_missing_def)
  have g: "public_url_result url_missing = Returns None
           \<or> public_url_result url_missing = Returns (Some [])"
    using f by simp
  have c0: "files empty_store = []" by (simp add: empty_store_def)
  show ?thesis
    using a b c0 d e f allowed_report_pdf
      upload_missing_public_url_no_cleanup [OF a allowed_report_pdf s q an b c d e g]
    by (simp add: empty_store_def report_pdf_def)
qed

text \<open>
  C3. The insert comes back without data and the removal that follows raises: the
  exception reaches the outer handler, which removes once more and answers with the
  message of the removal, not of the insert; since the second removal succeeds, nothing
  is printed.
\<close>

theorem upload_cleanup_failure_replaces_metadata_error:
  "fst (upload_file (Some report_pdf) (Some ''SN123'') (Some ''What city?'') (Some ''Paris'')
          insert_empty_cleanup_raises empty_store) =
     Response 500 [(''error'', ''Failed to upload file or metadata: storage timeout'')]
   \<and> fst (upload_file (Some report_pdf) (Some ''SN123'') (Some ''What city?'') (Some ''Paris'')
          insert_empty_cleanup_raises empty_store) \<noteq>
     Response 500 [(''error'', ''Failed to store file metadata: None'')]
   \<and> stdout (snd (upload_file (Some report_pdf) (Some ''SN123'') (Some ''What city?'')
          (Some ''Paris'') insert_empty_cleanup_raises empty_store)) = []
   \<and> calls (snd (upload_file (Some report_pdf) (Some ''SN123'') (Some ''What city?'')
          (Some ''Paris'') insert_empty_cleanup_raises empty_store)) =
     [TableSelect ''SN123'', StorageUpload ''SN123/report.pdf'', GetPublicUrl ''SN123/report.pdf'',
      TableInsert paris_row, StorageRemove ''SN123/report.pdf'', StorageRemove ''SN123/report.pdf'']"
  by (simp add: handler_defs store_defs allowed_report_pdf insert_empty_cleanup_raises_def
      healthy_def empty_store_def report_pdf_def fails_once_def paris_row_def Let_def)

text \<open>
  C4, as stated, fails: the sanitizer runs before the \<open>try\<close>, so an exception it
  raises leaves \<open>upload_file\<close> unhandled, after the uniqueness query and with no removal.
\<close>

theorem upload_exception_before_try_counterexample:
  "upload_file (Some report_pdf) (Some ''SN123'') (Some ''What city?'') (Some ''Paris'')
     sanitizer_raises empty_store =
   (Unhandled ''sanitizer failed'', empty_store\<lparr>calls := [TableSelect ''SN123'']\<rparr>)"
  by (simp add: handler_defs store_defs allowed_report_pdf sanitizer_raises_def
      healthy_def empty_store_def report_pdf_def failing_sanitizer_def Let_def)

lemma storage_remove_calls:
  "calls (snd (storage_remove n path ev st)) = calls st @ [StorageRemove path]"
  by (simp add: storage_remove_def called_def split: outcome.splits)

lemma upload_except_response:
  "fst (upload_except n path e ev st) =
     Response 500 [(''error'', ''Failed to upload file or metadata: '' @ e)]"
  by (simp add: upload_except_def split: prod.splits outcome.splits)

lemma upload_except_calls:
  "calls (snd (upload_except n path e ev st)) = calls st @ [StorageRemove path]"
  using storage_remove_calls [of n path ev st]
  by (auto simp: upload_except_def split: prod.splits outcome.splits)

lemma upload_except_files:
  "files (snd (upload_except n path e ev st)) = files st"
  by (auto simp: upload_except_def storage_remove_def called_def split: prod.splits outcome.splits)

lemma upload_try_files:
  "\<exists>ext. files (snd (upload_try serial question h original path file ev st)) = files st @ ext"
  by (auto simp: upload_try_def storage_upload_def storage_get_public_url_def
      table_insert_def storage_remove_def called_def upload_except_files
      split: prod.splits outcome.splits option.splits)

lemma upload_try_files_called:
  "\<exists>ext. files (snd (upload_try serial question h original path file ev
                         (st\<lparr>calls := c\<rparr>))) = files st @ ext"
  using upload_try_files [of serial question h original path "file" ev "st\<lparr>calls := c\<rparr>"]
  by simp

lemma upload_file_files:
  "\<exists>ext. files (snd (upload_file f s q a ev st)) = files st @ ext"
  using upload_try_files_called
  by (auto simp: upload_file_def upload_checked_def table_select_def called_def Let_def
      split: option.splits sum.splits outcome.splits prod.splits)

lemma serve_files: "\<exists>ext. files (snd (serve rq ev st)) = files st @ ext"
proof (cases rq)
  case (Upload f s q a)
  then show ?thesis using upload_file_files by simp
next
  case (GetQuestion s)
  then show ?thesis
    by (auto simp: get_security_question_def table_select_def called_def
        split: option.splits list.splits)
next
  case (Retrieve s a)
  then show ?thesis
    by (auto simp: retrieve_file_info_def table_select_def called_def Let_def
        split: option.splits list.splits)
qed

lemma run_files: "\<exists>ext. files (run later st) = files st @ ext"
proof (induction later arbitrary: st)
  case Nil
  then show ?case by simp
next
  case (Cons p later)
  obtain rq ev where p: "p = (rq, ev)" by (cases p)
  obtain e1 where e1: "files (snd (serve rq ev st)) = files st @ e1"
    using serve_files by blast
  obtain e2 where e2: "files (run later (snd (serve rq ev st))) = files (snd (serve rq ev st)) @ e2"
    using Cons.IH by blast
  show ?case unfolding p using e1 e2 by simp
qed

lemma upload_except_not_created:
  "upload_except n path e ev st \<noteq> (Response 201 body, st1)"
proof
  assume "upload_except n path e ev st = (Response 201 body, st1)"
  then have "fst (upload_except n path e ev st) = Response 201 body" by simp
  then show False by (simp add: upload_except_response)
qed

lemma upload_try_created:
  assumes "upload_try serial question h original path file ev st = (Response 201 body, st1)"
  shows "\<exists>url. body = [(''message'', ''File uploaded successfully!''), (''fileUrl'', url)]
           \<and> files st1 = files st @ [metadata_row serial question h url original]"
  using assms
  by (auto simp: upload_try_def storage_upload_def storage_get_public_url_def
      table_insert_def storage_remove_def called_def upload_except_not_created
      split: prod.splits outcome.splits option.splits if_splits)

text \<open>
  C9. The digest is a function of the answer alone, so the digest the upload stores for
  an answer is the one the retrieval computes for it: a row stored with the digest of an
  answer is unlocked by that answer. Every digest has 64 characters, all of them
  lowercase hexadecimal digits.
\<close>

theorem answer_digest_stable_64_hex:
  "length (sha256_hexdigest answer) = 64
   \<and> set (sha256_hexdigest answer) \<subseteq> set hexdigits
   \<and> hashed_answer (metadata_row serial question (sha256_hexdigest answer) url name)
       = sha256_hexdigest answer
   \<and> (serial \<noteq> [] \<and> answer \<noteq> [] \<and> select_fault ev = None \<longrightarrow>
        fst (retrieve_file_info (Some serial) (Some answer) ev
               (st\<lparr>files := metadata_row serial question (sha256_hexdigest answer) url name
                              # rest\<rparr>)) =
          Response 200 [(''message'', ''Verification successful''),
                        (''downloadUrl'', url), (''originalFilename'', name)])"
proof (intro conjI impI)
  show "length (sha256_hexdigest answer) = 64"
    by (simp add: sha256_hexdigest_def length_hexdigest)
  show "set (sha256_hexdigest answer) \<subseteq> set hexdigits"
    unfolding sha256_hexdigest_def by (rule set_hexdigest)
  show "hashed_answer (metadata_row serial question (sha256_hexdigest answer) url name)
          = sha256_hexdigest answer"
    by (simp add: metadata_row_def)
  assume "serial \<noteq> [] \<and> answer \<noteq> [] \<and> select_fault ev = None"
  then show "fst (retrieve_file_info (Some serial) (Some answer) ev
               (st\<lparr>files := metadata_row serial question (sha256_hexdigest answer) url name
                              # rest\<rparr>)) =
          Response 200 [(''message'', ''Verification successful''),
                        (''downloadUrl'', url), (''originalFilename'', name)]"
    by (simp add: retrieve_file_info_def table_select_def called_def metadata_row_def)
qed

theorem answer_digest_stable_64_hex_witness:
  "select_fault healthy = None
   \<and> length (sha256_hexdigest ''Paris'') = 64
   \<and> set (sha256_hexdigest ''Paris'') \<subseteq> set hexdigits
   \<and> fst (retrieve_file_info (Some ''SN123'') (Some ''Paris'') healthy paris_store) =
       Response 200 [(''message'', ''Verification successful''),
                     (''downloadUrl'', ''https://store.example/uploads/SN123/report.pdf''),
                     (''originalFilename'', ''report.pdf'')]"
proof -
  have b: "select_fault healthy = None" by (simp add: healthy_def)
  have s: "''SN123'' \<noteq> []" and an: "''Paris'' \<noteq> []" by simp_all
  have st: "paris_store = empty_store\<lparr>files :=
      metadata_row ''SN123'' ''What city?'' (sha256_hexdigest ''Paris'')
        ''https://store.example/uploads/SN123/report.pdf'' ''report.pdf'' # []\<rparr>"
    by (simp add: paris_store_def paris_row_def)
  note t = answer_digest_stable_64_hex [where answer = "''Paris''" and serial = "''SN123''"
      and question = "''What city?''"
      and url = "''https://store.example/uploads/SN123/report.pdf''"
      and name = "''report.pdf''" and ev = healthy and st = empty_store and rest = "[]"]
  show ?thesis using b s an t unfolding st by simp
qed

lemma sha256_abc:
  "sha256_hexdigest ''abc'' = ''ba7816bf8f01cfea414140de5dae2223b00361a396177a9cb410ff61f20015ad''"
  by code_simp

lemma sha256_Paris:
  "sha256_hexdigest ''Paris'' = ''5dd272b4f316b776a7b8e3d0894b37e1e42be3d5d3b204b8a5836cc50597a6b1''"
  by code_simp


theorem retrieve_unknown_serial_code_witness:
  "select_fault healthy = None
   \<and> filter (\<lambda>r. serial_code r = ''SN999'') (files paris_store) = []
   \<and> filter (\<lambda>r. serial_code r = ''SN123'') (files paris_store) = paris_row # []
   \<and> sha256_hexdigest ''abc'' \<noteq> hashed_answer paris_row
   \<and> fst (retrieve_file_info (Some ''SN999'') (Some ''Paris'') healthy paris_store) =
         Response 404 [(''error'', ''Invalid serial code'')]
   \<and> fst (retrieve_file_info (Some ''SN123'') (Some ''abc'') healthy paris_store) =
         Response 403 [(''error'', ''Incorrect security answer'')]"
proof -
  have s: "''SN999'' \<noteq> []" and an: "''Paris'' \<noteq> []"
    and s': "''SN123'' \<noteq> []" and an': "''abc'' \<noteq> []" by simp_all
  have b: "select_fault healthy = None" by (simp add: healthy_def)
  have a: "\<forall>r\<in>set (files paris_store). serial_code r \<noteq> ''SN999''"
    by (simp add: paris_store_def paris_row_def metadata_row_def empty_store_def)
  have c: "filter (\<lambda>r. serial_code r = ''SN123'') (files paris_store) = paris_row # []"
    by (simp add: paris_store_def paris_row_def metadata_row_def empty_store_def)
  have d: "sha256_hexdigest ''abc'' \<noteq> hashed_answer paris_row"
    by (simp add: paris_row_def metadata_row_def sha256_abc sha256_Paris)
  have a0: "filter (\<lambda>r. serial_code r = ''SN999'') (files paris_store) = []"
    by (simp add: paris_store_def paris_row_def metadata_row_def empty_store_def)
  show ?thesis
    using a0 b c d retrieve_unknown_serial_code [OF s an b a s' an' b c d] by simp
qed

lemma upload_file_alone:
  "upload_file_concurrent (Some file) serialCode securityQuestion securityAnswer
     (Returns (content file)) (\<lambda>st. st) ev st =
   upload_file (Some file) serialCode securityQuestion securityAnswer ev st"
  by (simp add: upload_file_concurrent_def upload_file_def upload_checked_def Let_def
      split: option.splits sum.splits prod.splits outcome.splits)

lemma upload_concurrent_reaches_try:
  assumes "filename file = Some name" and "allowed_file name = Inr True"
    and "serial \<noteq> []" and "question \<noteq> []" and "answer \<noteq> []"
    and "select_fault ev = None"
    and "\<forall>r\<in>set (files st). serial_code r \<noteq> serial"
  shows "upload_file_concurrent (Some file) (Some serial) (Some question) (Some answer)
           read others ev st =
           (case secure_filename ev name of
              Raises e \<Rightarrow> (Unhandled e, others (st\<lparr>calls := calls st @ [TableSelect serial]\<rparr>))
            | Returns original \<Rightarrow>
                (case read of
                   Raises e \<Rightarrow>
                     upload_except 0 (serial @ ''/'' @ original) e ev
                       (others (st\<lparr>calls := calls st @ [TableSelect serial]\<rparr>))
                 | Returns file_content \<Rightarrow>
                     upload_try serial question (sha256_hexdigest answer) original
                       (serial @ ''/'' @ original) (file\<lparr>content := file_content\<rparr>) ev
                       (others (st\<lparr>calls := calls st @ [TableSelect serial]\<rparr>))))"
proof -
  have name: "name \<noteq> []" using assms(2) by (rule allowed_nonempty)
  have none: "filter (\<lambda>r. serial_code r = serial) (files st) = []"
    using assms(7) by (simp add: filter_empty_conv)
  show ?thesis
    using assms(1-6) name none
    by (simp add: upload_file_concurrent_def table_select_def called_def Let_def)
qed

lemma upload_try_raised:
  assumes "raised_in_try serial question h original path (Returns b) ev = Some (e, tried)"
  shows "fst (upload_try serial question h original path file ev st) =
           Response 500 [(''error'', ''Failed to upload file or metadata: '' @ e)]
         \<and> calls (snd (upload_try serial question h original path file ev st)) =
           calls st @ tried @ [StorageRemove path]
         \<and> files (snd (upload_try serial question h original path file ev st)) = files st"
  using assms
  by (auto simp: raised_in_try_def upload_try_def storage_upload_def storage_get_public_url_def
      table_insert_def storage_remove_def called_def
      upload_except_response upload_except_calls upload_except_files
      split: outcome.splits option.splits prod.splits if_splits)

lemma upload_raised:
  assumes "raised_in_try serial question h original path read ev = Some (e, tried)"
  shows "fst (case read of
                Raises e \<Rightarrow> upload_except 0 path e ev st
              | Returns file_content \<Rightarrow>
                  upload_try serial question h original path (file\<lparr>content := file_content\<rparr>)
                    ev st) =
           Response 500 [(''error'', ''Failed to upload file or metadata: '' @ e)]
         \<and> calls (snd (case read of
                Raises e \<Rightarrow> upload_except 0 path e ev st
              | Returns file_content \<Rightarrow>
                  upload_try serial question h original path (file\<lparr>content := file_content\<rparr>)
                    ev st)) =
           calls st @ tried @ [StorageRemove path]
         \<and> files (snd (case read of
                Raises e \<Rightarrow> upload_except 0 path e ev st
              | Returns file_content \<Rightarrow>
                  upload_try serial question h original path (file\<lparr>content := file_content\<rparr>)
                    ev st)) = files st"
proof (cases read)
  case (Raises x)
  with assms have "x = e" and "tried = []" by (simp_all add: raised_in_try_def)
  with Raises show ?thesis
    by (simp add: upload_except_response upload_except_calls upload_except_files)
next
  case (Returns b)
  with assms have "raised_in_try serial question h original path (Returns b) ev = Some (e, tried)"
    by simp
  from upload_try_raised [OF this] Returns show ?thesis by simp
qed

text \<open>
  C4, amended. After validation and a uniqueness query that found no row: an exception of
  the sanitizer, which runs before the \<open>try\<close>, leaves the handler unhandled with no
  further call; an exception raised inside the \<open>try\<close> is followed by one more removal of
  the object, after the calls made before the exception, and is answered with 500 and its
  message, whatever that removal gives; no row is written.
\<close>

theorem upload_exception_in_try_cleans_up:
  assumes "filename file = Some name" and "allowed_file name = Inr True"
    and "serial \<noteq> []" and "question \<noteq> []" and "answer \<noteq> []"
    and "select_fault ev = None"
    and "\<forall>r\<in>set (files st). serial_code r \<noteq> serial"
  shows "(secure_filename ev name = Raises e \<longrightarrow>
            upload_file_concurrent (Some file) (Some serial) (Some question) (Some answer)
              read others ev st =
              (Unhandled e, others (st\<lparr>calls := calls st @ [TableSelect serial]\<rparr>)))
         \<and> (secure_filename ev name = Returns original
              \<and> raised_in_try serial question (sha256_hexdigest answer) original
                    (serial @ ''/'' @ original) read ev = Some (e, tried) \<longrightarrow>
              fst (upload_file_concurrent (Some file) (Some serial) (Some question) (Some answer)
                     read others ev st) =
                Response 500 [(''error'', ''Failed to upload file or metadata: '' @ e)]
              \<and> calls (snd (upload_file_concurrent (Some file) (Some serial) (Some question)
                               (Some answer) read others ev st)) =
                calls (others (st\<lparr>calls := calls st @ [TableSelect serial]\<rparr>)) @ tried
                  @ [StorageRemove (serial @ ''/'' @ original)]
              \<and> files (snd (upload_file_concurrent (Some file) (Some serial) (Some question)
                               (Some answer) read others ev st)) =
                files (others (st\<lparr>calls := calls st @ [TableSelect serial]\<rparr>)))"
proof (intro conjI impI)
  assume "secure_filename ev name = Raises e"
  then show "upload_file_concurrent (Some file) (Some serial) (Some question) (Some answer)
              read others ev st =
              (Unhandled e, others (st\<lparr>calls := calls st @ [TableSelect serial]\<rparr>))"
    by (simp add: upload_concurrent_reaches_try [OF assms])
next
  assume h: "secure_filename ev name = Returns original
              \<and> raised_in_try serial question (sha256_hexdigest answer) original
                    (serial @ ''/'' @ original) read ev = Some (e, tried)"
  then have eq: "upload_file_concurrent (Some file) (Some serial) (Some question) (Some answer)
      read others ev st =
      (case read of
         Raises e \<Rightarrow>
           upload_except 0 (serial @ ''/'' @ original) e ev
             (others (st\<lparr>calls := calls st @ [TableSelect serial]\<rparr>))
       | Returns file_content \<Rightarrow>
           upload_try serial question (sha256_hexdigest answer) original
             (serial @ ''/'' @ original) (file\<lparr>content := file_content\<rparr>) ev
             (others (st\<lparr>calls := calls st @ [TableSelect serial]\<rparr>)))"
    by (simp add: upload_concurrent_reaches_try [OF assms])
  from h have r: "raised_in_try serial question (sha256_hexdigest answer) original
                    (serial @ ''/'' @ original) read ev = Some (e, tried)" by simp
  show "fst (upload_file_concurrent (Some file) (Some serial) (Some question) (Some answer)
               read others ev st) =
          Response 500 [(''error'', ''Failed to upload file or metadata: '' @ e)]"
    unfolding eq using upload_raised [OF r] by simp
  show "calls (snd (upload_file_concurrent (Some file) (Some serial) (Some question)
                      (Some answer) read others ev st)) =
          calls (others (st\<lparr>calls := calls st @ [TableSelect serial]\<rparr>)) @ tried
            @ [StorageRemove (serial @ ''/'' @ original)]"
    unfolding eq using upload_raised [OF r] by simp
  show "files (snd (upload_file_concurrent (Some file) (Some serial) (Some question)
                      (Some answer) read others ev st)) =
          files (others (st\<lparr>calls := calls st @ [TableSelect serial]\<rparr>))"
    unfolding eq using upload_raised [OF r] by simp
qed

theorem upload_exception_in_try_cleans_up_witness:
  "filename report_pdf = Some ''report.pdf'' \<and> allowed_file ''report.pdf'' = Inr True
   \<and> select_fault sanitizer_raises = None \<and> select_fault nothing_removable = None
   \<and> files empty_store = []
   \<and> secure_filename sanitizer_raises ''report.pdf'' = Raises ''sanitizer failed''
   \<and> secure_filename nothing_removable ''report.pdf'' = Returns ''report.pdf''
   \<and> raised_in_try ''SN123'' ''What city?'' (sha256_hexdigest ''Paris'') ''report.pdf''
        ''SN123/report.pdf'' (Returns ''%PDF-1.4'') nothing_removable =
       Some (''storage timeout'',
             [StorageUpload ''SN123/report.pdf'', GetPublicUrl ''SN123/report.pdf'',
              TableInsert paris_row, StorageRemove ''SN123/report.pdf''])
   \<and> upload_file_concurrent (Some report_pdf) (Some ''SN123'') (Some ''What city?'')
         (Some ''Paris'') (Returns ''%PDF-1.4'') (\<lambda>st. st) sanitizer_raises empty_store =
       (Unhandled ''sanitizer failed'', empty_store\<lparr>calls := [TableSelect ''SN123'']\<rparr>)
   \<and> fst (upload_file_concurrent (Some report_pdf) (Some ''SN123'') (Some ''What city?'')
         (Some ''Paris'') (Returns ''%PDF-1.4'') (\<lambda>st. st) nothing_removable empty_store) =
       Response 500 [(''error'', ''Failed to upload file or metadata: storage timeout'')]
   \<and> calls (snd (upload_file_concurrent (Some report_pdf) (Some ''SN123'') (Some ''What city?'')
         (Some ''Paris'') (Returns ''%PDF-1.4'') (\<lambda>st. st) nothing_removable empty_store)) =
       [TableSelect ''SN123'', StorageUpload ''SN123/report.pdf'',
        GetPublicUrl ''SN123/report.pdf'', TableInsert paris_row,
        StorageRemove ''SN123/report.pdf'', StorageRemove ''SN123/report.pdf'']
   \<and> files (snd (upload_file_concurrent (Some report_pdf) (Some ''SN123'') (Some ''What city?'')
         (Some ''Paris'') (Returns ''%PDF-1.4'') (\<lambda>st. st) nothing_removable empty_store)) = []"
proof -
  have a: "filename report_pdf = Some ''report.pdf''" by (simp add: report_pdf_def)
  have s: "''SN123'' \<noteq> []" and q: "''What city?'' \<noteq> []" and an: "''Paris'' \<noteq> []"
    by simp_all
  have b1: "select_fault sanitizer_raises = None" by (simp add: sanitizer_raises_def healthy_def)
  have b2: "select_fault nothing_removable = None"
    by (simp add: nothing_removable_def healthy_def)
  have c: "\<forall>r\<in>set (files empty_store). serial_code r \<noteq> ''SN123''"
    by (simp add: empty_store_def)
  have c0: "files empty_store = []" and c1: "calls empty_store = []"
    by (simp_all add: empty_store_def)
  have d1: "secure_filename sanitizer_raises ''report.pdf'' = Raises ''sanitizer failed''"
    by (simp add: sanitizer_raises_def failing_sanitizer_def)
  have d2: "secure_filename nothing_removable ''report.pdf'' = Returns ''report.pdf''"
    by (simp add: nothing_removable_def healthy_def)
  have r: "raised_in_try ''SN123'' ''What city?'' (sha256_hexdigest ''Paris'') ''report.pdf''
        ''SN123/report.pdf'' (Returns ''%PDF-1.4'') nothing_removable =
       Some (''storage timeout'',
             [StorageUpload ''SN123/report.pdf'', GetPublicUrl ''SN123/report.pdf'',
              TableInsert paris_row, StorageRemove ''SN123/report.pdf''])"
    by (simp add: raised_in_try_def nothing_removable_def healthy_def paris_row_def)
  have p: "''SN123'' @ ''/'' @ ''report.pdf'' = ''SN123/report.pdf''" by simp
  note t1 = upload_exception_in_try_cleans_up [OF a allowed_report_pdf s q an b1 c,
      where e = "''sanitizer failed''" and read = "Returns ''%PDF-1.4''"
        and others = "\<lambda>st. st"]
  note t2 = upload_exception_in_try_cleans_up [OF a allowed_report_pdf s q an b2 c,
      where e = "''storage timeout''" and original = "''report.pdf''"
        and read = "Returns ''%PDF-1.4''" and others = "\<lambda>st. st"
        and tried = "[StorageUpload ''SN123/report.pdf'', GetPublicUrl ''SN123/report.pdf'',
              TableInsert paris_row, StorageRemove ''SN123/report.pdf'']"]
  have u1: "upload_file_concurrent (Some report_pdf) (Some ''SN123'') (Some ''What city?'')
         (Some ''Paris'') (Returns ''%PDF-1.4'') (\<lambda>st. st) sanitizer_raises empty_store =
       (Unhandled ''sanitizer failed'', empty_store\<lparr>calls := [TableSelect ''SN123'']\<rparr>)"
    using t1 d1 c1 by simp
  have u2: "fst (upload_file_concurrent (Some report_pdf) (Some ''SN123'') (Some ''What city?'')
         (Some ''Paris'') (Returns ''%PDF-1.4'') (\<lambda>st. st) nothing_removable empty_store) =
       Response 500 [(''error'', ''Failed to upload file or metadata: storage timeout'')]
     \<and> calls (snd (upload_file_concurrent (Some report_pdf) (Some ''SN123'') (Some ''What city?'')
         (Some ''Paris'') (Returns ''%PDF-1.4'') (\<lambda>st. st) nothing_removable empty_store)) =
       [TableSelect ''SN123'', StorageUpload ''SN123/report.pdf'',
        GetPublicUrl ''SN123/report.pdf'', TableInsert paris_row,
        StorageRemove ''SN123/report.pdf'', StorageRemove ''SN123/report.pdf'']
     \<and> files (snd (upload_file_concurrent (Some report_pdf) (Some ''SN123'') (Some ''What city?'')
         (Some ''Paris'') (Returns ''%PDF-1.4'') (\<lambda>st. st) nothing_removable empty_store)) = []"
    using t2 d2 r c0 c1 unfolding p by simp
  show ?thesis
    using a b1 b2 c0 d1 d2 r allowed_report_pdf u1 u2 by simp
qed

lemma upload_file_concurrent_created:
  assumes "upload_file_concurrent (Some file) (Some serial) (Some question) (Some answer)
             read others ev st = (Response 201 body, st1)"
  shows "serial \<noteq> [] \<and> answer \<noteq> []
         \<and> filter (\<lambda>r. serial_code r = serial) (files st) = []
         \<and> (\<exists>url name. body = [(''message'', ''File uploaded successfully!''), (''fileUrl'', url)]
               \<and> files st1 = files (others (st\<lparr>calls := calls st @ [TableSelect serial]\<rparr>))
                     @ [metadata_row serial question (sha256_hexdigest answer) url name])"
  using assms
  by (auto simp: upload_file_concurrent_def table_select_def called_def Let_def
      upload_except_not_created
      split: option.splits sum.splits outcome.splits if_splits
      dest!: upload_try_created)

text \<open>
  C1, amended. An upload answered 201 with the URL \<open>url\<close>, and no other request inserted a
  row with its serial code between its uniqueness query and its insert. Then, in every
  later state of the table, which only grows, a retrieval with the same serial code and
  answer whose query answers gets 200 with \<open>downloadUrl\<close> equal to \<open>url\<close>, the
  \<open>file_path\<close> of the row the upload inserted, and with the \<open>original_filename\<close> of
  that row.
\<close>

theorem retrieve_after_unraced_upload:
  assumes "upload_file_concurrent (Some file) (Some serial) (Some question) (Some answer)
             read others ev st = (Response 201 body, st1)"
    and "\<And>s. filter (\<lambda>r. serial_code r = serial) (files (others s)) =
             filter (\<lambda>r. serial_code r = serial) (files s)"
    and "files st2 = files st1 @ ext"
    and "select_fault ev' = None"
  shows "\<exists>url name.
           body = [(''message'', ''File uploaded successfully!''), (''fileUrl'', url)]
           \<and> last (files st1) = metadata_row serial question (sha256_hexdigest answer) url name
           \<and> fst (retrieve_file_info (Some serial) (Some answer) ev' st2) =
               Response 200 [(''message'', ''Verification successful''),
                             (''downloadUrl'', url), (''originalFilename'', name)]"
proof -
  from upload_file_concurrent_created [OF assms(1)]
  obtain url name where s: "serial \<noteq> []" and a: "answer \<noteq> []"
    and none: "filter (\<lambda>r. serial_code r = serial) (files st) = []"
    and body: "body = [(''message'', ''File uploaded successfully!''), (''fileUrl'', url)]"
    and st1: "files st1 = files (others (st\<lparr>calls := calls st @ [TableSelect serial]\<rparr>))
                @ [metadata_row serial question (sha256_hexdigest answer) url name]"
    by (elim exE conjE) (rule that)
  have still: "filter (\<lambda>r. serial_code r = serial)
                 (files (others (st\<lparr>calls := calls st @ [TableSelect serial]\<rparr>))) = []"
    using assms(2) [of "st\<lparr>calls := calls st @ [TableSelect serial]\<rparr>"] none by simp
  have rows: "filter (\<lambda>r. serial_code r = serial) (files st2) =
      metadata_row serial question (sha256_hexdigest answer) url name
        # filter (\<lambda>r. serial_code r = serial) ext"
    unfolding assms(3) st1 using still by (simp add: metadata_row_def)
  have "fst (retrieve_file_info (Some serial) (Some answer) ev' st2) =
          Response 200 [(''message'', ''Verification successful''),
                        (''downloadUrl'', url), (''originalFilename'', name)]"
    using s a assms(4) rows
    by (simp add: retrieve_file_info_def table_select_def called_def metadata_row_def)
  with body st1 show ?thesis by simp
qed

lemma upload_file_concurrent_files:
  assumes "\<And>s. \<exists>ext. files (others s) = files s @ ext"
  shows "\<exists>ext. files (snd (upload_file_concurrent f s q a read others ev st)) = files st @ ext"
proof -
  have tried: "\<exists>ext. files (snd (upload_try serial question h original path file' ev
                               (others (st\<lparr>calls := c\<rparr>)))) = files st @ ext"
    for serial question h original path file' c
  proof -
    obtain e1 where e1: "files (others (st\<lparr>calls := c\<rparr>)) = files st @ e1"
      using assms [of "st\<lparr>calls := c\<rparr>"] by auto
    obtain e2 where "files (snd (upload_try serial question h original path file' ev
                               (others (st\<lparr>calls := c\<rparr>)))) =
        files (others (st\<lparr>calls := c\<rparr>)) @ e2"
      using upload_try_files by blast
    with e1 show ?thesis by simp
  qed
  have other: "\<exists>ext. files (others (st\<lparr>calls := c\<rparr>)) = files st @ ext" for c
    using assms [of "st\<lparr>calls := c\<rparr>"] by simp
  show ?thesis
    using tried other
    by (auto simp: upload_file_concurrent_def table_select_def called_def Let_def
        upload_except_files
        split: option.splits sum.splits outcome.splits prod.splits)
qed

lemma other_lookup_files: "files (other_lookup s) = files s"
  by (simp add: other_lookup_def get_security_question_def table_select_def called_def
      healthy_def split: list.splits)

theorem retrieve_after_unraced_upload_witness:
  "select_fault healthy = None
   \<and> (\<forall>s. files (other_lookup s) = files s)
   \<and> fst (upload_file_concurrent (Some report_pdf) (Some ''SN123'') (Some ''What city?'')
         (Some ''Paris'') (Returns ''%PDF-1.4'') other_lookup healthy empty_store) =
       Response 201 [(''message'', ''File uploaded successfully!''),
                     (''fileUrl'', ''https://store.example/uploads/SN123/report.pdf'')]
   \<and> fst (retrieve_file_info (Some ''SN123'') (Some ''Paris'') healthy
         (run later_requests
            (snd (upload_file_concurrent (Some report_pdf) (Some ''SN123'')
                    (Some ''What city?'') (Some ''Paris'') (Returns ''%PDF-1.4'') other_lookup
                    healthy empty_store)))) =
       Response 200 [(''message'', ''Verification successful''),
                     (''downloadUrl'', ''https://store.example/uploads/SN123/report.pdf''),
                     (''originalFilename'', ''report.pdf'')]"
proof -
  let ?up = "upload_file_concurrent (Some report_pdf) (Some ''SN123'') (Some ''What city?'')
               (Some ''Paris'') (Returns ''%PDF-1.4'') other_lookup healthy empty_store"
  have b: "select_fault healthy = None" by (simp add: healthy_def)
  have o: "filter (\<lambda>r. serial_code r = ''SN123'') (files (other_lookup s)) =
           filter (\<lambda>r. serial_code r = ''SN123'') (files s)" for s
    by (simp add: other_lookup_files)
  have r: "fst ?up =
       Response 201 [(''message'', ''File uploaded successfully!''),
                     (''fileUrl'', ''https://store.example/uploads/SN123/report.pdf'')]"
    by (simp add: upload_file_concurrent_def upload_try_def store_defs allowed_report_pdf
        other_lookup_files healthy_def empty_store_def report_pdf_def Let_def)
  have f: "files (snd ?up) = [paris_row]"
    by (simp add: upload_file_concurrent_def upload_try_def store_defs allowed_report_pdf
        other_lookup_files healthy_def empty_store_def report_pdf_def paris_row_def
        metadata_row_def Let_def)
  have u: "?up =
           (Response 201 [(''message'', ''File uploaded successfully!''),
                          (''fileUrl'', ''https://store.example/uploads/SN123/report.pdf'')],
            snd ?up)"
    using r by (simp add: prod_eq_iff)
  obtain ext where ext: "files (run later_requests (snd ?up)) = files (snd ?up) @ ext"
    using run_files by blast
  from retrieve_after_unraced_upload [OF u o ext b]
  obtain url name where
    1: "[(''message'', ''File uploaded successfully!''),
         (''fileUrl'', ''https://store.example/uploads/SN123/report.pdf'')] =
        [(''message'', ''File uploaded successfully!''), (''fileUrl'', url)]"
    and 2: "last (files (snd ?up)) =
            metadata_row ''SN123'' ''What city?'' (sha256_hexdigest ''Paris'') url name"
    and 3: "fst (retrieve_file_info (Some ''SN123'') (Some ''Paris'') healthy
               (run later_requests (snd ?up))) =
       Response 200 [(''message'', ''Verification successful''),
                     (''downloadUrl'', url), (''originalFilename'', name)]"
    by (elim exE conjE) (rule that)
  from 1 have url: "url = ''https://store.example/uploads/SN123/report.pdf''" by simp
  from 2 have name: "name = ''report.pdf''"
    unfolding f by (simp add: paris_row_def metadata_row_def)
  show ?thesis using b r 3 other_lookup_files unfolding url name by simp
qed

text \<open>
  C1, as stated, fails: an upload whose uniqueness query ran before another upload of the
  same serial code inserted its row is answered 201 as well; its row is the second for
  the serial code, and a retrieval with its own answer is compared with the first row
  and gets 403.
\<close>

theorem retrieve_after_raced_upload_counterexample:
  "fst (upload_file_concurrent (Some report_pdf) (Some ''SN123'') (Some ''Which town?'')
          (Some ''abc'') (Returns ''%PDF-1.4'') other_upload healthy empty_store) =
     Response 201 [(''message'', ''File uploaded successfully!''),
                   (''fileUrl'', ''https://store.example/uploads/SN123/report.pdf'')]
   \<and> files (snd (upload_file_concurrent (Some report_pdf) (Some ''SN123'') (Some ''Which town?'')
          (Some ''abc'') (Returns ''%PDF-1.4'') other_upload healthy empty_store)) =
     [paris_row,
      metadata_row ''SN123'' ''Which town?'' (sha256_hexdigest ''abc'')
        ''https://store.example/uploads/SN123/report.pdf'' ''report.pdf'']
   \<and> fst (retrieve_file_info (Some ''SN123'') (Some ''abc'') healthy
          (snd (upload_file_concurrent (Some report_pdf) (Some ''SN123'') (Some ''Which town?'')
                  (Some ''abc'') (Returns ''%PDF-1.4'') other_upload healthy empty_store))) =
     Response 403 [(''error'', ''Incorrect security answer'')]"
proof -
  let ?up = "upload_file_concurrent (Some report_pdf) (Some ''SN123'') (Some ''Which town?'')
          (Some ''abc'') (Returns ''%PDF-1.4'') other_upload healthy empty_store"
  have o: "files (other_upload (empty_store\<lparr>calls := [TableSelect ''SN123'']\<rparr>)) = [paris_row]"
    by (simp add: other_upload_def handler_defs store_defs allowed_report_pdf healthy_def
        empty_store_def report_pdf_def paris_row_def Let_def)
  have r: "fst ?up =
     Response 201 [(''message'', ''File uploaded successfully!''),
                   (''fileUrl'', ''https://store.example/uploads/SN123/report.pdf'')]"
    by (simp add: upload_file_concurrent_def upload_try_def store_defs allowed_report_pdf
        healthy_def empty_store_def report_pdf_def Let_def)
  have f: "files (snd ?up) =
     [paris_row,
      metadata_row ''SN123'' ''Which town?'' (sha256_hexdigest ''abc'')
        ''https://store.example/uploads/SN123/report.pdf'' ''report.pdf'']"
    using o
    by (simp add: upload_file_concurrent_def upload_try_def store_defs allowed_report_pdf
        healthy_def empty_store_def report_pdf_def Let_def)
  have d: "sha256_hexdigest ''abc'' \<noteq> hashed_answer paris_row"
    by (simp add: paris_row_def metadata_row_def sha256_abc sha256_Paris)
  have q: "fst (retrieve_file_info (Some ''SN123'') (Some ''abc'') healthy (snd ?up)) =
     Response 403 [(''error'', ''Incorrect security answer'')]"
    using f d
    by (simp add: retrieve_file_info_def table_select_def called_def healthy_def
        paris_row_def metadata_row_def)
  from r f q show ?thesis by simp
qed

end
